theory Spec2Isabelle
  imports Complex_Main
begin

section \<open>Colour model of the CCT downlighter accessory\<close>

text \<open>
  The accessory is the class \<open>CCTDownlighter\<close> in its third (reference) iteration.
  JavaScript numbers are modelled by exact rationals; the one non-finite value the
  colour computation can meet, \<open>1000000 / 0 = Infinity\<close>, is a constructor of its own.
  HomeKit hands Brightness and ColorTemperature over as integers. Where the exact value
  of a product is an integer, the double the code computes may fall just below it, and
  the floor with it; the bounds and the clamping proved below hold for both, since
  rounding is monotone and 0, 1 and 100 are doubles.
\<close>

datatype number = Num rat | Infinity

record AccessoryState =
  On :: bool
  Brightness :: int
  ColorTemperature :: int

text \<open>The helper functions at the top of the file.\<close>

definition lerp :: "rat \<Rightarrow> rat \<Rightarrow> rat \<Rightarrow> rat" where
  "lerp mn mx n = (1 - n) * mn + n * mx"

text \<open>\<open>clamp(n, min = 0, max = 1) = Math.min(max, Math.max(min, n))\<close>\<close>

fun clamp :: "number \<Rightarrow> rat \<Rightarrow> rat \<Rightarrow> rat" where
  "clamp (Num n) mn mx = min mx (max mn n)"
| "clamp Infinity mn mx = mx"

text \<open>
  \<open>invlerp(min, max, n) = clamp((n - min) / (max - min))\<close>. With \<open>n = Infinity\<close> the
  quotient is \<open>-Infinity\<close> when \<open>max - min\<close> is negative, which clamps to \<open>0\<close>, and
  \<open>Infinity\<close> otherwise.
\<close>

fun invlerp :: "rat \<Rightarrow> rat \<Rightarrow> number \<Rightarrow> rat" where
  "invlerp mn mx (Num n) = clamp (Num ((n - mn) / (mx - mn))) 0 1"
| "invlerp mn mx Infinity = (if mx - mn < 0 then 0 else clamp Infinity 0 1)"

text \<open>The two ranges are two-element array literals at the only call site: pairs here.\<close>

definition interpolate :: "rat \<times> rat \<Rightarrow> rat \<times> rat \<Rightarrow> number \<Rightarrow> rat" where
  "interpolate inputRange outputRange n =
     lerp (fst outputRange) (snd outputRange) (invlerp (fst inputRange) (snd inputRange) n)"

text \<open>\<open>Math.round\<close> rounds halves up; \<open>Math.floor\<close> is \<open>floor\<close>.\<close>

fun Math_round :: "number \<Rightarrow> number" where
  "Math_round (Num x) = Num (of_int \<lfloor>x + 1 / 2\<rfloor>)"
| "Math_round Infinity = Infinity"

text \<open>\<open>Number.prototype.toString(radix)\<close> on an integer, and \<open>padStart\<close> with a one-character filler.\<close>

definition digit_char :: "nat \<Rightarrow> char" where
  "digit_char d = ''0123456789abcdefghijklmnopqrstuvwxyz'' ! d"

function nat_toString :: "nat \<Rightarrow> nat \<Rightarrow> string" where
  "nat_toString radix n =
     (if n < radix \<or> radix < 2 then [digit_char n]
      else nat_toString radix (n div radix) @ [digit_char (n mod radix)])"
  by pat_completeness auto
termination
  by (relation "measure (\<lambda>(radix, n). n)") auto

definition toString :: "int \<Rightarrow> nat \<Rightarrow> string" where
  "toString v radix =
     (if v < 0 then CHR ''-'' # nat_toString radix (nat (- v)) else nat_toString radix (nat v))"

definition padStart :: "nat \<Rightarrow> char \<Rightarrow> string \<Rightarrow> string" where
  "padStart n c s = replicate (n - length s) c @ s"

text \<open>The local constants of \<open>calculateHexValue\<close>, in the order they are computed.\<close>

definition temperatureInKelvin :: "AccessoryState \<Rightarrow> number" where
  "temperatureInKelvin st =
     Math_round (if ColorTemperature st = 0 then Infinity
                 else Num (1000000 / of_int (ColorTemperature st)))"

definition saturation_sct :: "AccessoryState \<Rightarrow> rat" where
  "saturation_sct st = interpolate (2200, 7000) (0, 100) (temperatureInKelvin st)"

definition coolValue :: "AccessoryState \<Rightarrow> int" where
  "coolValue st = \<lfloor>saturation_sct st * (of_int (Brightness st) / 100)\<rfloor>"

definition warmValue :: "AccessoryState \<Rightarrow> int" where
  "warmValue st = \<lfloor>(100 - saturation_sct st) * (of_int (Brightness st) / 100)\<rfloor>"

definition calculateHexValue :: "AccessoryState \<Rightarrow> string" where
  "calculateHexValue st =
     (if \<not> On st then ''#000000''
      else let coolHexValue = padStart 2 (CHR ''0'') (toString (coolValue st) 16);
               warmHexValue = padStart 2 (CHR ''0'') (toString (warmValue st) 16)
           in ''#'' @ coolHexValue @ warmHexValue @ ''00'')"





section \<open>The accessory object and its environment\<close>

text \<open>
  One record holds the fields of the \<open>CCTDownlighter\<close> object together with the parts of
  its environment the handlers read and write: the sockets created so far (\<open>this.ws\<close> is
  an index into them), the timers of the event loop that are still pending, the frames
  handed to \<open>WebSocket.send\<close>, the persisted \<open>accessory.context.state\<close> and the
  characteristic values shown by the hub.
\<close>

datatype readyState = CONNECTING | OPEN | CLOSING | CLOSED

datatype timer_cb = ReconnectCb | StatusCheckCb | ConnectionTimeoutCb

record timer =
  handle :: nat
  callback :: timer_cb
  delay :: nat
  repeats :: bool

text \<open>
  JavaScript values as \<open>JSON.parse\<close> and a property read produce them. Numbers are the
  integers the device reports (\<open>firmwareVersion\<close>).
\<close>

datatype jsvalue =
  Undefined | JNull | JBool bool | JNumber int | JString string
  | JArray "jsvalue list" | JObject "(string \<times> jsvalue) list"

datatype error = TypeError | SyntaxError

text \<open>The On characteristic holds a value, or the Error that makes the hub show "not responding".\<close>

datatype on_value = OnValue bool | OnError string

record accessory =
  ws :: "nat option"
  reconnectInterval :: "nat option"
  connectionTimeout :: "nat option"
  statusCheckInterval :: "nat option"
  isOnline :: bool
  lastStatus :: "jsvalue option"
  restoreState :: bool
  states :: AccessoryState
  context_state :: "AccessoryState option"
  Characteristic_On :: on_value
  Characteristic_Name :: jsvalue
  Characteristic_Manufacturer :: jsvalue
  Characteristic_Model :: jsvalue
  Characteristic_SerialNumber :: jsvalue
  Characteristic_FirmwareRevision :: jsvalue
  sockets :: "readyState list"
  url_ok :: bool
  timers :: "timer list"
  next_handle :: nat
  sent :: "(nat \<times> string) list"

definition RECONNECT_INTERVAL :: nat where "RECONNECT_INTERVAL = 15000"
definition STATUS_CHECK_INTERVAL :: nat where "STATUS_CHECK_INTERVAL = 20000"
definition CONNECTION_TIMEOUT :: nat where "CONNECTION_TIMEOUT = 30000"

subsection \<open>Timers of the event loop\<close>

text \<open>
  \<open>setInterval\<close> and \<open>setTimeout\<close> return a fresh handle; \<open>clearTimeout\<close> and
  \<open>clearInterval\<close> are interchangeable in Node and do nothing on a handle that is no
  longer pending.
\<close>

definition setTimer :: "timer_cb \<Rightarrow> nat \<Rightarrow> bool \<Rightarrow> accessory \<Rightarrow> nat \<times> accessory" where
  "setTimer cb ms rep w =
     (next_handle w,
      w\<lparr>timers := timers w @ [\<lparr>handle = next_handle w, callback = cb, delay = ms, repeats = rep\<rparr>],
        next_handle := Suc (next_handle w)\<rparr>)"

definition setInterval :: "timer_cb \<Rightarrow> nat \<Rightarrow> accessory \<Rightarrow> nat \<times> accessory" where
  "setInterval cb ms w = setTimer cb ms True w"

definition setTimeout :: "timer_cb \<Rightarrow> nat \<Rightarrow> accessory \<Rightarrow> nat \<times> accessory" where
  "setTimeout cb ms w = setTimer cb ms False w"

definition clearTimer :: "nat \<Rightarrow> accessory \<Rightarrow> accessory" where
  "clearTimer h w = w\<lparr>timers := filter (\<lambda>t. handle t \<noteq> h) (timers w)\<rparr>"

subsection \<open>The socket library\<close>

text \<open>
  \<open>close()\<close> and \<open>terminate()\<close> move a socket that is connecting or open to
  \<open>CLOSING\<close> and leave any other socket as it is; \<open>send\<close> hands a frame to the wire.
\<close>

definition readyState_of :: "accessory \<Rightarrow> nat \<Rightarrow> readyState option" where
  "readyState_of w sid = (if sid < length (sockets w) then Some (sockets w ! sid) else None)"

definition ws_close :: "nat \<Rightarrow> accessory \<Rightarrow> accessory" where
  "ws_close sid w =
     (if readyState_of w sid = Some CONNECTING \<or> readyState_of w sid = Some OPEN
      then w\<lparr>sockets := (sockets w)[sid := CLOSING]\<rparr> else w)"

definition ws_terminate :: "nat \<Rightarrow> accessory \<Rightarrow> accessory" where
  "ws_terminate sid w =
     (if readyState_of w sid = Some CONNECTING \<or> readyState_of w sid = Some OPEN
      then w\<lparr>sockets := (sockets w)[sid := CLOSING]\<rparr> else w)"

definition ws_send :: "nat \<Rightarrow> string \<Rightarrow> accessory \<Rightarrow> accessory" where
  "ws_send sid message w = w\<lparr>sent := sent w @ [(sid, message)]\<rparr>"

subsection \<open>Methods of the class\<close>

definition loadCachedState :: "accessory \<Rightarrow> accessory" where
  "loadCachedState w =
     (case context_state w of
        Some cachedState \<Rightarrow>
          w\<lparr>states := \<lparr>On = On cachedState, Brightness = Brightness cachedState,
                        ColorTemperature = ColorTemperature cachedState\<rparr>\<rparr>
      | None \<Rightarrow> w\<lparr>context_state := Some (states w)\<rparr>)"

definition saveState :: "accessory \<Rightarrow> accessory" where
  "saveState w = w\<lparr>context_state := Some (states w)\<rparr>"

definition updateNotResponding :: "accessory \<Rightarrow> accessory" where
  "updateNotResponding w = w\<lparr>Characteristic_On := OnError ''Device not responding''\<rparr>"

definition sendMessage :: "string \<Rightarrow> accessory \<Rightarrow> accessory" where
  "sendMessage message w =
     (case ws w of
        None \<Rightarrow> w
      | Some sid \<Rightarrow> if readyState_of w sid = Some OPEN then ws_send sid message w else w)"

text \<open>\<open>JSON.stringify({ cmd: 'STATUS' })\<close>; the character \<open>0x22\<close> is the double quote.\<close>

definition STATUS_request :: string where
  "STATUS_request =
     ''{'' @ [CHR 0x22] @ ''cmd'' @ [CHR 0x22] @ '':'' @ [CHR 0x22] @ ''STATUS'' @ [CHR 0x22] @ ''}''"

definition checkStatus :: "accessory \<Rightarrow> accessory" where
  "checkStatus w = sendMessage STATUS_request w"

definition sendState :: "accessory \<Rightarrow> accessory" where
  "sendState w =
     (if \<not> isOnline w then w else sendMessage (calculateHexValue (states w)) w)"

definition scheduleReconnect :: "accessory \<Rightarrow> accessory" where
  "scheduleReconnect w =
     (if reconnectInterval w = None
      then (let (h, w') = setInterval ReconnectCb RECONNECT_INTERVAL w
            in w'\<lparr>reconnectInterval := Some h\<rparr>)
      else w)"

definition scheduleConnectionTimeout :: "accessory \<Rightarrow> accessory" where
  "scheduleConnectionTimeout w =
     (let w1 = (case connectionTimeout w of
                  Some h \<Rightarrow> (clearTimer h w)\<lparr>connectionTimeout := None\<rparr>
                | None \<Rightarrow> w);
          (h, w2) = setTimeout ConnectionTimeoutCb CONNECTION_TIMEOUT w1
      in w2\<lparr>connectionTimeout := Some h\<rparr>)"

definition handleDisconnection :: "accessory \<Rightarrow> accessory" where
  "handleDisconnection w =
     (let w1 = w\<lparr>isOnline := False\<rparr>;
          w2 = (case statusCheckInterval w1 of
                  Some h \<Rightarrow> (clearTimer h w1)\<lparr>statusCheckInterval := None\<rparr>
                | None \<Rightarrow> w1)
      in scheduleReconnect (updateNotResponding w2))"

text \<open>
  \<open>connectWebSocket\<close>: close the previous socket, then create the new one. \<open>url_ok\<close>
  says whether \<open>new WebSocket(wsUrl)\<close> accepts the URL built from the device's address;
  when it throws, \<open>this.ws\<close> keeps the old socket and the catch block runs.
\<close>

definition connectWebSocket :: "accessory \<Rightarrow> accessory" where
  "connectWebSocket w =
     (let w1 = (case ws w of Some sid \<Rightarrow> ws_close sid w | None \<Rightarrow> w)
      in if url_ok w1
         then w1\<lparr>ws := Some (length (sockets w1)), sockets := sockets w1 @ [CONNECTING]\<rparr>
         else handleDisconnection w1)"


subsection \<open>JavaScript operations on received values\<close>

text \<open>
  \<open>key in value\<close> throws a TypeError on a primitive. The handler asks for three keys
  only, none of which an array or \<open>Object.prototype\<close> provides. A parsed object is
  an association list with one entry for each key.
\<close>

fun js_in :: "string \<Rightarrow> jsvalue \<Rightarrow> error + bool" where
  "js_in k (JObject kvs) = Inr (k \<in> set (map fst kvs))"
| "js_in k (JArray xs) = Inr False"
| "js_in k v = Inl TypeError"

fun js_get :: "jsvalue \<Rightarrow> string \<Rightarrow> jsvalue" where
  "js_get (JObject kvs) k = (case map_of kvs k of Some v \<Rightarrow> v | None \<Rightarrow> Undefined)"
| "js_get v k = Undefined"

fun join :: "string \<Rightarrow> string list \<Rightarrow> string" where
  "join sep [] = []"
| "join sep [x] = x"
| "join sep (x # y # ys) = x @ sep @ join sep (y # ys)"

text \<open>The string of a value as \<open>Array.prototype.join\<close> takes it: empty for null and undefined.\<close>

fun join_str :: "jsvalue \<Rightarrow> string" where
  "join_str Undefined = []"
| "join_str JNull = []"
| "join_str (JBool b) = (if b then ''true'' else ''false'')"
| "join_str (JNumber n) = toString n 10"
| "join_str (JString s) = s"
| "join_str (JArray xs) = join '','' (map join_str xs)"
| "join_str (JObject kvs) = ''[object Object]''"

text \<open>The method call \<open>v.toString()\<close>: a TypeError on null and undefined.\<close>

fun js_toString :: "jsvalue \<Rightarrow> error + string" where
  "js_toString Undefined = Inl TypeError"
| "js_toString JNull = Inl TypeError"
| "js_toString v = Inr (join_str v)"

text \<open>
  \<open>'hostname' in response && 'mac' in response && 'firmwareVersion' in response\<close>,
  evaluated left to right.
\<close>

definition is_status_response :: "jsvalue \<Rightarrow> error + bool" where
  "is_status_response response =
     (case js_in ''hostname'' response of
        Inl e \<Rightarrow> Inl e
      | Inr False \<Rightarrow> Inr False
      | Inr True \<Rightarrow>
          (case js_in ''mac'' response of
             Inl e \<Rightarrow> Inl e
           | Inr False \<Rightarrow> Inr False
           | Inr True \<Rightarrow> js_in ''firmwareVersion'' response))"

text \<open>
  \<open>updateAccessoryInfo\<close>: the only statement that can throw, the \<open>toString\<close> call on
  the firmware version, comes before the first assignment.
\<close>

definition updateAccessoryInfo :: "jsvalue \<Rightarrow> accessory \<Rightarrow> error + accessory" where
  "updateAccessoryInfo status w =
     (case js_toString (js_get status ''firmwareVersion'') of
        Inl e \<Rightarrow> Inl e
      | Inr firmwareString \<Rightarrow>
          (let w1 = (if Characteristic_Manufacturer w \<noteq> JString ''Sternet Smart''
                     then w\<lparr>Characteristic_Manufacturer := JString ''Sternet Smart''\<rparr> else w);
               w2 = (if Characteristic_Model w1 \<noteq> JString ''CCT Downlighter''
                     then w1\<lparr>Characteristic_Model := JString ''CCT Downlighter''\<rparr> else w1);
               w3 = (if Characteristic_SerialNumber w2 \<noteq> js_get status ''mac''
                     then w2\<lparr>Characteristic_SerialNumber := js_get status ''mac''\<rparr> else w2);
               w4 = (if Characteristic_FirmwareRevision w3 \<noteq> JString firmwareString
                     then w3\<lparr>Characteristic_FirmwareRevision := JString firmwareString\<rparr> else w3);
               w5 = (if Characteristic_Name w4 \<noteq> js_get status ''hostname''
                     then w4\<lparr>Characteristic_Name := js_get status ''hostname''\<rparr> else w4)
           in Inr (w5\<lparr>lastStatus := Some status\<rparr>)))"

subsection \<open>The socket event handlers registered by \<open>connectWebSocket\<close>\<close>

definition on_open :: "accessory \<Rightarrow> accessory" where
  "on_open w =
     (let w1 = (case reconnectInterval w of
                  Some h \<Rightarrow> (clearTimer h w)\<lparr>reconnectInterval := None\<rparr>
                | None \<Rightarrow> w);
          w2 = (case statusCheckInterval w1 of Some h \<Rightarrow> clearTimer h w1 | None \<Rightarrow> w1);
          (h, w3) = setInterval StatusCheckCb STATUS_CHECK_INTERVAL w2;
          w4 = w3\<lparr>statusCheckInterval := Some h\<rparr>;
          w5 = w4\<lparr>isOnline := True\<rparr>;
          w6 = (if restoreState w5 then sendState w5 else w5);
          w7 = w6\<lparr>Characteristic_On := OnValue (On (states w6))\<rparr>
      in scheduleConnectionTimeout w7)"

text \<open>
  The message handler. Its argument is what \<open>JSON.parse(data.toString())\<close> makes of the
  frame: \<open>None\<close> when it throws. The body of the \<open>try\<close> block either completes or
  throws before it has changed anything; the empty \<open>catch\<close> block then leaves the
  object as it was.
\<close>

definition on_message_body :: "jsvalue option \<Rightarrow> accessory \<Rightarrow> error + accessory" where
  "on_message_body parsed w =
     (case parsed of
        None \<Rightarrow> Inl SyntaxError
      | Some response \<Rightarrow>
          (case is_status_response response of
             Inl e \<Rightarrow> Inl e
           | Inr False \<Rightarrow> Inr (scheduleConnectionTimeout w)
           | Inr True \<Rightarrow>
               (case updateAccessoryInfo response w of
                  Inl e \<Rightarrow> Inl e
                | Inr w1 \<Rightarrow>
                    (let w2 = (if \<not> isOnline w1
                               then w1\<lparr>isOnline := True,
                                       Characteristic_On := OnValue (On (states w1))\<rparr>
                               else w1)
                     in Inr (scheduleConnectionTimeout w2)))))"

definition on_message :: "jsvalue option \<Rightarrow> accessory \<Rightarrow> accessory" where
  "on_message parsed w = (case on_message_body parsed w of Inl e \<Rightarrow> w | Inr w' \<Rightarrow> w')"

definition on_close :: "accessory \<Rightarrow> accessory" where
  "on_close w = handleDisconnection w"

definition on_error :: "accessory \<Rightarrow> accessory" where
  "on_error w = handleDisconnection w"

text \<open>The callback armed by \<open>scheduleConnectionTimeout\<close>.\<close>

definition on_connection_timeout :: "accessory \<Rightarrow> accessory" where
  "on_connection_timeout w =
     handleDisconnection (case ws w of Some sid \<Rightarrow> ws_terminate sid w | None \<Rightarrow> w)"

subsection \<open>Requests of the hub\<close>

definition setOn :: "bool \<Rightarrow> accessory \<Rightarrow> accessory" where
  "setOn v w =
     (let w1 = saveState (w\<lparr>states := (states w)\<lparr>On := v\<rparr>\<rparr>)
      in if isOnline w1
         then (let w2 = sendState w1 in w2\<lparr>Characteristic_On := OnValue (On (states w2))\<rparr>)
         else w1)"

definition setBrightness :: "int \<Rightarrow> accessory \<Rightarrow> accessory" where
  "setBrightness v w =
     (let w1 = saveState (w\<lparr>states := (states w)\<lparr>Brightness := v\<rparr>\<rparr>)
      in if isOnline w1 then sendState w1 else w1)"

definition setColorTemperature :: "int \<Rightarrow> accessory \<Rightarrow> accessory" where
  "setColorTemperature v w =
     (let w1 = saveState (w\<lparr>states := (states w)\<lparr>ColorTemperature := v\<rparr>\<rparr>)
      in if isOnline w1 then sendState w1 else w1)"

definition getBrightness :: "accessory \<Rightarrow> int" where
  "getBrightness w = Brightness (states w)"

definition getColorTemperature :: "accessory \<Rightarrow> int" where
  "getColorTemperature w = ColorTemperature (states w)"

definition destroy :: "accessory \<Rightarrow> accessory" where
  "destroy w =
     (let w1 = (case ws w of Some sid \<Rightarrow> ws_close sid w | None \<Rightarrow> w);
          w2 = (case reconnectInterval w1 of Some h \<Rightarrow> clearTimer h w1 | None \<Rightarrow> w1)
      in (case statusCheckInterval w2 of Some h \<Rightarrow> clearTimer h w2 | None \<Rightarrow> w2))"


subsection \<open>Events of one accessory\<close>

text \<open>
  The socket library sets \<open>readyState\<close> before it emits \<open>open\<close> and \<open>close\<close>. Every
  socket the object ever created keeps its handlers, so an event of any socket runs
  them. A timer that fires runs its callback; a timeout is no longer pending then, an
  interval stays.
\<close>

definition set_readyState :: "nat \<Rightarrow> readyState \<Rightarrow> accessory \<Rightarrow> accessory" where
  "set_readyState sid r w = w\<lparr>sockets := (sockets w)[sid := r]\<rparr>"

definition fire_timer :: "nat \<Rightarrow> accessory \<Rightarrow> accessory" where
  "fire_timer h w =
     (case find (\<lambda>t. handle t = h) (timers w) of
        None \<Rightarrow> w
      | Some t \<Rightarrow>
          (let w1 = (if repeats t then w else clearTimer h w)
           in case callback t of
                ReconnectCb \<Rightarrow> connectWebSocket w1
              | StatusCheckCb \<Rightarrow> checkStatus w1
              | ConnectionTimeoutCb \<Rightarrow> on_connection_timeout w1))"

datatype event =
    ConnectAttempt
  | WsOpen nat
  | WsMessage nat "jsvalue option"
  | WsClose nat
  | WsError nat
  | TimerFires nat
  | HubSetOn bool
  | HubSetBrightness int
  | HubSetColorTemperature int
  | Destroy

fun step :: "event \<Rightarrow> accessory \<Rightarrow> accessory" where
  "step ConnectAttempt w = connectWebSocket w"
| "step (WsOpen sid) w = on_open (set_readyState sid OPEN w)"
| "step (WsMessage sid parsed) w = on_message parsed w"
| "step (WsClose sid) w = on_close (set_readyState sid CLOSED w)"
| "step (WsError sid) w = on_error w"
| "step (TimerFires h) w = fire_timer h w"
| "step (HubSetOn v) w = setOn v w"
| "step (HubSetBrightness v) w = setBrightness v w"
| "step (HubSetColorTemperature v) w = setColorTemperature v w"
| "step Destroy w = destroy w"

fun run :: "event list \<Rightarrow> accessory \<Rightarrow> accessory" where
  "run [] w = w"
| "run (e # es) w = run es (step e w)"

subsection \<open>Construction\<close>

text \<open>
  The device entry kept in \<open>accessory.context.device\<close>; \<open>restore_state\<close> may be
  missing. The constructor reads it with \<open>?? false\<close>.
\<close>

record context_device =
  ctx_name :: string
  ctx_type :: string
  ctx_ip :: string
  ctx_restore_state :: "bool option"

text \<open>The accessory of the hub that the handler is created for, with its \<open>context.device\<close>.\<close>

record PlatformAccessory =
  displayName :: string
  UUID :: string
  context_device :: "context_device option"

definition restore_state_or_false :: "context_device \<Rightarrow> bool" where
  "restore_state_or_false device =
     (case ctx_restore_state device of Some b \<Rightarrow> b | None \<Rightarrow> False)"

text \<open>
  The field initialisers of the class. The object starts with no socket, no timer and
  no frame sent; the hub's values, the persisted state and the device address belong
  to the environment it is built in.
\<close>

definition field_initialisers :: "accessory \<Rightarrow> accessory" where
  "field_initialisers env =
     env\<lparr>ws := None, reconnectInterval := None, connectionTimeout := None,
         statusCheckInterval := None, isOnline := False, lastStatus := None,
         states := \<lparr>On = False, Brightness = 100, ColorTemperature = 300\<rparr>,
         sockets := [], timers := [], sent := []\<rparr>"

text \<open>
  The members the class body declares; \<open>getOn\<close> is commented out.
  \<open>this.m.bind(this)\<close> throws a TypeError when \<open>this.m\<close> is undefined.
\<close>

definition class_members :: "string list" where
  "class_members =
     [''loadCachedState'', ''saveState'', ''updateAccessoryInfo'', ''updateNotResponding'',
      ''calculateHexValue'', ''sendMessage'', ''checkStatus'', ''sendState'',
      ''connectWebSocket'', ''handleDisconnection'', ''scheduleReconnect'',
      ''scheduleConnectionTimeout'', ''setOn'', ''setBrightness'', ''getBrightness'',
      ''setColorTemperature'', ''getColorTemperature'', ''destroy'']"

definition bind_method :: "string \<Rightarrow> error + string" where
  "bind_method m = (if m \<in> set class_members then Inr m else Inl TypeError)"

text \<open>
  The constructor returns the object as far as it got, and the error it threw, if any.
  Reading \<open>restore_state\<close> of a missing \<open>context.device\<close> is a TypeError. The service
  name is set from \<open>context.device.exampleDisplayName\<close>, a field the platform never
  stores.
\<close>

definition new_CCTDownlighter :: "PlatformAccessory \<Rightarrow> accessory \<Rightarrow> accessory \<times> error option" where
  "new_CCTDownlighter accessory env =
     (let w0 = field_initialisers env
      in case context_device accessory of
           None \<Rightarrow> (w0, Some TypeError)
         | Some device \<Rightarrow>
     (let w1 = w0\<lparr>restoreState := restore_state_or_false device\<rparr>;
          w2 = loadCachedState w1;
          w3 = w2\<lparr>Characteristic_Name := Undefined\<rparr>
      in case bind_method ''setOn'' of Inl e \<Rightarrow> (w3, Some e) | Inr _ \<Rightarrow>
         (case bind_method ''getOn'' of Inl e \<Rightarrow> (w3, Some e) | Inr _ \<Rightarrow>
         (case bind_method ''setBrightness'' of Inl e \<Rightarrow> (w3, Some e) | Inr _ \<Rightarrow>
         (case bind_method ''getBrightness'' of Inl e \<Rightarrow> (w3, Some e) | Inr _ \<Rightarrow>
         (case bind_method ''setColorTemperature'' of Inl e \<Rightarrow> (w3, Some e) | Inr _ \<Rightarrow>
         (case bind_method ''getColorTemperature'' of Inl e \<Rightarrow> (w3, Some e) | Inr _ \<Rightarrow>
            (updateNotResponding (connectWebSocket w3), None))))))))"

section \<open>The platform\<close>

record DeviceConfig =
  cfg_name :: string
  cfg_device_type :: string
  cfg_ip :: string
  cfg_restore_state :: "bool option"

text \<open>\<open>validateConfig\<close>; \<open>None\<close> for \<open>config.devices\<close> stands for a value that is no array.\<close>

definition validateConfig :: "DeviceConfig list option \<Rightarrow> DeviceConfig list option" where
  "validateConfig config_devices =
     (case config_devices of
        None \<Rightarrow> None
      | Some devices \<Rightarrow>
          (let validDevices =
                 filter (\<lambda>device. \<not> (cfg_ip device = [] \<or> cfg_device_type device = []
                                        \<or> cfg_device_type device \<noteq> ''cct_downlighter'')) devices
           in if length validDevices = 0 then None else Some validDevices))"

text \<open>
  The body of the loop of \<open>discoverDevices\<close> for one device: the accessory whose handler
  is created. \<open>generate\<close> is \<open>api.hap.uuid.generate\<close>, \<open>accessories\<close> the accessories
  restored from the cache.
\<close>

definition discoverDevice ::
  "(string \<Rightarrow> string) \<Rightarrow> (string \<rightharpoonup> PlatformAccessory) \<Rightarrow> DeviceConfig \<Rightarrow> PlatformAccessory" where
  "discoverDevice generate accessories device =
     (let uuid = generate (cfg_ip device)
      in case accessories uuid of
           Some existingAccessory \<Rightarrow>
             existingAccessory\<lparr>context_device :=
               Some \<lparr>ctx_name = cfg_name device, ctx_type = cfg_device_type device,
                     ctx_ip = cfg_ip device, ctx_restore_state = cfg_restore_state device\<rparr>\<rparr>
         | None \<Rightarrow>
             \<lparr>displayName = cfg_name device, UUID = uuid,
              context_device =
                Some \<lparr>ctx_name = cfg_name device, ctx_type = cfg_device_type device,
                      ctx_ip = cfg_ip device, ctx_restore_state = None\<rparr>\<rparr>)"

definition discoverDevices ::
  "(string \<Rightarrow> string) \<Rightarrow> (string \<rightharpoonup> PlatformAccessory) \<Rightarrow> DeviceConfig list option
     \<Rightarrow> PlatformAccessory list" where
  "discoverDevices generate accessories config_devices =
     (case validateConfig config_devices of
        None \<Rightarrow> []
      | Some devices \<Rightarrow> map (discoverDevice generate accessories) devices)"

text \<open>\<open>configureAccessory\<close>, called for each cached accessory when the hub starts again.\<close>

definition configureAccessory ::
  "PlatformAccessory \<Rightarrow> (string \<rightharpoonup> PlatformAccessory) \<Rightarrow> (string \<rightharpoonup> PlatformAccessory)" where
  "configureAccessory accessory accessories = accessories(UUID accessory \<mapsto> accessory)"


section \<open>Notions used in the statements\<close>

text \<open>
  The link is online when the object believes so and the socket it holds is open:
  the two checks a state frame passes on its way out, \<open>isOnline\<close> in the set
  handlers and in \<open>sendState\<close>, \<open>readyState\<close> in \<open>sendMessage\<close>.
\<close>

definition link_online :: "accessory \<Rightarrow> bool" where
  "link_online w =
     (isOnline w \<and> (case ws w of Some sid \<Rightarrow> readyState_of w sid = Some OPEN | None \<Rightarrow> False))"

text \<open>What \<open>sendMessage\<close> puts on the wire for a message: one frame on an open socket.\<close>

definition frames :: "accessory \<Rightarrow> string \<Rightarrow> (nat \<times> string) list" where
  "frames w m =
     (case ws w of
        Some sid \<Rightarrow> if readyState_of w sid = Some OPEN then [(sid, m)] else []
      | None \<Rightarrow> [])"

text \<open>Clearing the timer a field holds, if it holds one.\<close>

fun cancel :: "nat option \<Rightarrow> timer list \<Rightarrow> timer list" where
  "cancel None ts = ts"
| "cancel (Some h) ts = filter (\<lambda>t. handle t \<noteq> h) ts"

text \<open>
  The pending timers of one kind, and the invariant behind their number: handles are
  distinct and fresh, each pending timer is the one its field names, and a field never
  holds a handle that is yet to be issued.
\<close>

definition pending :: "timer_cb \<Rightarrow> accessory \<Rightarrow> timer list" where
  "pending cb w = filter (\<lambda>t. callback t = cb) (timers w)"

definition owned :: "timer list \<Rightarrow> nat \<Rightarrow> nat option \<Rightarrow> nat option \<Rightarrow> nat option \<Rightarrow> bool" where
  "owned ts n r s c =
     (distinct (map handle ts)
      \<and> (\<forall>h \<in> set_option r \<union> set_option s \<union> set_option c. h < n)
      \<and> (\<forall>t \<in> set ts. handle t < n
             \<and> (case callback t of ReconnectCb \<Rightarrow> r | StatusCheckCb \<Rightarrow> s
                 | ConnectionTimeoutCb \<Rightarrow> c) = Some (handle t)))"

definition timers_owned :: "accessory \<Rightarrow> bool" where
  "timers_owned w =
     owned (timers w) (next_handle w) (reconnectInterval w) (statusCheckInterval w)
       (connectionTimeout w)"

text \<open>An environment for the worked examples: a hub with placeholder values, nothing cached.\<close>

definition example_env :: "bool \<Rightarrow> accessory" where
  "example_env restore =
     \<lparr>ws = None, reconnectInterval = None, connectionTimeout = None,
      statusCheckInterval = None, isOnline = False, lastStatus = None,
      restoreState = restore,
      states = \<lparr>On = False, Brightness = 100, ColorTemperature = 300\<rparr>,
      context_state = None, Characteristic_On = OnValue False,
      Characteristic_Name = JString ''Lamp'',
      Characteristic_Manufacturer = JString ''Default-Manufacturer'',
      Characteristic_Model = JString ''Default-Model'',
      Characteristic_SerialNumber = JString ''Default-SerialNumber'',
      Characteristic_FirmwareRevision = JString ''0.0.0'',
      sockets = [], url_ok = True, timers = [], next_handle = 0, sent = []\<rparr>"

text \<open>The set requests of the hub among the events.\<close>

fun is_set_request :: "event \<Rightarrow> bool" where
  "is_set_request (HubSetOn v) = True"
| "is_set_request (HubSetBrightness v) = True"
| "is_set_request (HubSetColorTemperature v) = True"
| "is_set_request e = False"

text \<open>
  Worked examples: an object whose first socket is connecting, the same object once that
  socket has opened, the object after the socket closed instead, and an object that was
  handed a desired state while its socket was still connecting.
\<close>

definition connecting_example :: "bool \<Rightarrow> accessory" where
  "connecting_example restore = step ConnectAttempt (field_initialisers (example_env restore))"

definition online_example :: "bool \<Rightarrow> accessory" where
  "online_example restore = step (WsOpen 0) (connecting_example restore)"

definition disconnected_example :: "bool \<Rightarrow> accessory" where
  "disconnected_example restore = step (WsClose 0) (connecting_example restore)"

definition disconnected_holding :: "bool \<Rightarrow> accessory" where
  "disconnected_holding restore =
     run [ConnectAttempt, HubSetOn True, HubSetBrightness 50, HubSetColorTemperature 300]
       (field_initialisers (example_env restore))"


section \<open>Properties of the colour model\<close>









lemma frame_example:
  "calculateHexValue \<lparr>On = True, Brightness = 50, ColorTemperature = 300\<rparr> = ''#0b2600''"
  by code_simp






section \<open>How each method changes the object\<close>

lemmas timer_defs = setInterval_def setTimeout_def setTimer_def clearTimer_def

lemma sendMessage_eq: "sendMessage m w = w\<lparr>sent := sent w @ frames w m\<rparr>"
  by (simp add: sendMessage_def ws_send_def frames_def split: option.splits)

lemma sendState_eq:
  "sendState w = w\<lparr>sent := sent w @ (if isOnline w then frames w (calculateHexValue (states w)) else [])\<rparr>"
  by (simp add: sendState_def sendMessage_eq)

lemma scheduleReconnect_eq:
  "scheduleReconnect w =
     (if reconnectInterval w = None
      then w\<lparr>reconnectInterval := Some (next_handle w),
             timers := timers w @ [\<lparr>handle = next_handle w, callback = ReconnectCb,
                                    delay = RECONNECT_INTERVAL, repeats = True\<rparr>],
             next_handle := Suc (next_handle w)\<rparr>
      else w)"
  by (simp add: scheduleReconnect_def timer_defs)

lemma scheduleConnectionTimeout_eq:
  "scheduleConnectionTimeout w =
     w\<lparr>connectionTimeout := Some (next_handle w),
       timers := cancel (connectionTimeout w) (timers w)
                 @ [\<lparr>handle = next_handle w, callback = ConnectionTimeoutCb,
                      delay = CONNECTION_TIMEOUT, repeats = False\<rparr>],
       next_handle := Suc (next_handle w)\<rparr>"
  by (cases "connectionTimeout w") (simp_all add: scheduleConnectionTimeout_def timer_defs)

lemma handleDisconnection_eq:
  "handleDisconnection w =
     scheduleReconnect
       (w\<lparr>isOnline := False, statusCheckInterval := None,
          timers := cancel (statusCheckInterval w) (timers w),
          Characteristic_On := OnError ''Device not responding''\<rparr>)"
  by (cases w)
     (simp add: handleDisconnection_def updateNotResponding_def clearTimer_def Let_def
        split: option.splits)

lemma clear_reconnect_eq:
  "(case reconnectInterval w of
      Some h \<Rightarrow> (clearTimer h w)\<lparr>reconnectInterval := None\<rparr>
    | None \<Rightarrow> w)
   = w\<lparr>reconnectInterval := None, timers := cancel (reconnectInterval w) (timers w)\<rparr>"
  by (cases w; cases "reconnectInterval w") (simp_all add: clearTimer_def)

lemma on_open_eq:
  "on_open w =
       w\<lparr>reconnectInterval := None,
          statusCheckInterval := Some (next_handle w),
          connectionTimeout := Some (Suc (next_handle w)),
          timers := cancel (connectionTimeout w)
                     (cancel (statusCheckInterval w) (cancel (reconnectInterval w) (timers w))
                      @ [\<lparr>handle = next_handle w, callback = StatusCheckCb,
                           delay = STATUS_CHECK_INTERVAL, repeats = True\<rparr>])
                    @ [\<lparr>handle = Suc (next_handle w), callback = ConnectionTimeoutCb,
                      delay = CONNECTION_TIMEOUT, repeats = False\<rparr>],
          next_handle := Suc (Suc (next_handle w)),
          isOnline := True,
          sent := sent w @ (if restoreState w then frames w (calculateHexValue (states w)) else []),
          Characteristic_On := OnValue (On (states w))\<rparr>"
  unfolding on_open_def clear_reconnect_eq
  by (cases "statusCheckInterval w"; cases "ws w")
     (simp_all add: sendState_eq scheduleConnectionTimeout_eq frames_def readyState_of_def timer_defs Let_def)


lemma cond_update_Manufacturer:
  "(if Characteristic_Manufacturer w \<noteq> v then w\<lparr>Characteristic_Manufacturer := v\<rparr> else w)
     = w\<lparr>Characteristic_Manufacturer := v\<rparr>"
  by simp

lemma cond_update_Model:
  "(if Characteristic_Model w \<noteq> v then w\<lparr>Characteristic_Model := v\<rparr> else w)
     = w\<lparr>Characteristic_Model := v\<rparr>"
  by simp

lemma cond_update_SerialNumber:
  "(if Characteristic_SerialNumber w \<noteq> v then w\<lparr>Characteristic_SerialNumber := v\<rparr> else w)
     = w\<lparr>Characteristic_SerialNumber := v\<rparr>"
  by simp

lemma cond_update_FirmwareRevision:
  "(if Characteristic_FirmwareRevision w \<noteq> v then w\<lparr>Characteristic_FirmwareRevision := v\<rparr> else w)
     = w\<lparr>Characteristic_FirmwareRevision := v\<rparr>"
  by simp

lemma cond_update_Name:
  "(if Characteristic_Name w \<noteq> v then w\<lparr>Characteristic_Name := v\<rparr> else w)
     = w\<lparr>Characteristic_Name := v\<rparr>"
  by simp

lemma updateAccessoryInfo_eq:
  "updateAccessoryInfo status w =
     (case js_toString (js_get status ''firmwareVersion'') of
        Inl e \<Rightarrow> Inl e
      | Inr firmwareString \<Rightarrow>
          Inr (w\<lparr>Characteristic_Manufacturer := JString ''Sternet Smart'',
                 Characteristic_Model := JString ''CCT Downlighter'',
                 Characteristic_SerialNumber := js_get status ''mac'',
                 Characteristic_FirmwareRevision := JString firmwareString,
                 Characteristic_Name := js_get status ''hostname'',
                 lastStatus := Some status\<rparr>))"
  unfolding updateAccessoryInfo_def Let_def
    cond_update_Manufacturer cond_update_Model cond_update_SerialNumber
    cond_update_FirmwareRevision cond_update_Name
  by (simp split: sum.splits)

lemma on_message_eq:
  "on_message parsed w =
     (case parsed of
        None \<Rightarrow> w
      | Some response \<Rightarrow>
          (case is_status_response response of
             Inl e \<Rightarrow> w
           | Inr False \<Rightarrow> scheduleConnectionTimeout w
           | Inr True \<Rightarrow>
               (case js_toString (js_get response ''firmwareVersion'') of
                  Inl e \<Rightarrow> w
                | Inr firmwareString \<Rightarrow>
                    scheduleConnectionTimeout
                      (if isOnline w
                       then w\<lparr>Characteristic_Manufacturer := JString ''Sternet Smart'',
                         Characteristic_Model := JString ''CCT Downlighter'',
                         Characteristic_SerialNumber := js_get response ''mac'',
                         Characteristic_FirmwareRevision := JString firmwareString,
                         Characteristic_Name := js_get response ''hostname'',
                         lastStatus := Some response\<rparr>
                       else w\<lparr>Characteristic_Manufacturer := JString ''Sternet Smart'',
                         Characteristic_Model := JString ''CCT Downlighter'',
                         Characteristic_SerialNumber := js_get response ''mac'',
                         Characteristic_FirmwareRevision := JString firmwareString,
                         Characteristic_Name := js_get response ''hostname'',
                         lastStatus := Some response,
                         isOnline := True,
                         Characteristic_On := OnValue (On (states w))\<rparr>))))"
proof (cases parsed)
  case None
  then show ?thesis by (simp add: on_message_def on_message_body_def)
next
  case (Some response)
  show ?thesis
  proof (cases "is_status_response response")
    case (Inl e)
    with Some show ?thesis by (simp add: on_message_def on_message_body_def)
  next
    case (Inr b)
    show ?thesis
    proof (cases b)
      case False
      with Some Inr show ?thesis by (simp add: on_message_def on_message_body_def)
    next
      case True
      show ?thesis
      proof (cases "js_toString (js_get response ''firmwareVersion'')")
        case (Inl e)
        with Some Inr True show ?thesis
          by (simp add: on_message_def on_message_body_def updateAccessoryInfo_eq)
      next
        case (Inr firmwareString)
        with Some \<open>is_status_response response = Inr b\<close> True show ?thesis
          by (cases "isOnline w")
             (simp_all add: on_message_def on_message_body_def updateAccessoryInfo_eq Let_def)
      qed
    qed
  qed
qed

lemma destroy_eq:
  "destroy w =
     (case ws w of Some sid \<Rightarrow> ws_close sid w | None \<Rightarrow> w)
       \<lparr>timers := cancel (statusCheckInterval w) (cancel (reconnectInterval w) (timers w))\<rparr>"
  by (cases "reconnectInterval w"; cases "statusCheckInterval w"; cases "ws w"; cases w)
     (simp_all add: destroy_def ws_close_def readyState_of_def clearTimer_def Let_def)

lemma connectWebSocket_eq:
  "connectWebSocket w =
     (let w1 = (case ws w of Some sid \<Rightarrow> ws_close sid w | None \<Rightarrow> w)
      in if url_ok w
         then w1\<lparr>ws := Some (length (sockets w)), sockets := sockets w1 @ [CONNECTING]\<rparr>
         else handleDisconnection w1)"
  by (cases "ws w") (simp_all add: connectWebSocket_def ws_close_def Let_def)

lemma set_cancel: "set (cancel ho ts) = {t \<in> set ts. ho \<noteq> Some (handle t)}"
  by (cases ho) auto

lemma distinct_cancel: "distinct (map handle ts) \<Longrightarrow> distinct (map handle (cancel ho ts))"
  by (cases ho) (simp_all add: distinct_map_filter)

lemma owned_cancel: "owned ts n r s c \<Longrightarrow> owned (cancel ho ts) n r s c"
  by (simp add: owned_def set_cancel distinct_cancel)

lemma owned_cancel_r: "owned ts n r s c \<Longrightarrow> owned (cancel r ts) n None s c"
  by (auto simp: owned_def set_cancel distinct_cancel split: timer_cb.splits)

lemma owned_cancel_s: "owned ts n r s c \<Longrightarrow> owned (cancel s ts) n r None c"
  by (auto simp: owned_def set_cancel distinct_cancel split: timer_cb.splits)

lemma owned_cancel_c: "owned ts n r s c \<Longrightarrow> owned (cancel c ts) n r s None"
  by (auto simp: owned_def set_cancel distinct_cancel split: timer_cb.splits)

lemma owned_add_r:
  "owned ts n None s c \<Longrightarrow>
   owned (ts @ [\<lparr>handle = n, callback = ReconnectCb, delay = d, repeats = p\<rparr>]) (Suc n) (Some n) s c"
proof -
  assume o: "owned ts n None s c"
  have fresh: "n \<notin> handle ` set ts" using o by (auto simp: owned_def)
  show ?thesis using o fresh
    by (auto simp: owned_def less_Suc_eq split: timer_cb.splits)
qed

lemma owned_add_s:
  "owned ts n r None c \<Longrightarrow>
   owned (ts @ [\<lparr>handle = n, callback = StatusCheckCb, delay = d, repeats = p\<rparr>]) (Suc n) r (Some n) c"
proof -
  assume o: "owned ts n r None c"
  have fresh: "n \<notin> handle ` set ts" using o by (auto simp: owned_def)
  show ?thesis using o fresh
    by (auto simp: owned_def less_Suc_eq split: timer_cb.splits)
qed

lemma owned_add_c:
  "owned ts n r s None \<Longrightarrow>
   owned (ts @ [\<lparr>handle = n, callback = ConnectionTimeoutCb, delay = d, repeats = p\<rparr>]) (Suc n) r s (Some n)"
proof -
  assume o: "owned ts n r s None"
  have fresh: "n \<notin> handle ` set ts" using o by (auto simp: owned_def)
  show ?thesis using o fresh
    by (auto simp: owned_def less_Suc_eq split: timer_cb.splits)
qed

lemma owned_scheduleReconnect: "timers_owned w \<Longrightarrow> timers_owned (scheduleReconnect w)"
  by (auto simp: timers_owned_def scheduleReconnect_eq intro: owned_add_r)

lemma owned_scheduleConnectionTimeout:
  "timers_owned w \<Longrightarrow> timers_owned (scheduleConnectionTimeout w)"
  by (simp add: timers_owned_def scheduleConnectionTimeout_eq owned_add_c owned_cancel_c)

lemma owned_handleDisconnection: "timers_owned w \<Longrightarrow> timers_owned (handleDisconnection w)"
  unfolding handleDisconnection_eq
  by (rule owned_scheduleReconnect) (simp add: timers_owned_def owned_cancel_s)

lemma owned_ws_close [simp]: "timers_owned (ws_close sid w) = timers_owned w"
  by (simp add: timers_owned_def ws_close_def)

lemma owned_ws_terminate [simp]: "timers_owned (ws_terminate sid w) = timers_owned w"
  by (simp add: timers_owned_def ws_terminate_def)

lemma owned_irrelevant [simp]:
  "timers_owned (w\<lparr>ws := a\<rparr>) = timers_owned w"
  "timers_owned (w\<lparr>sockets := b\<rparr>) = timers_owned w"
  "timers_owned (w\<lparr>sent := c\<rparr>) = timers_owned w"
  "timers_owned (w\<lparr>isOnline := d\<rparr>) = timers_owned w"
  "timers_owned (w\<lparr>states := e\<rparr>) = timers_owned w"
  "timers_owned (w\<lparr>context_state := f\<rparr>) = timers_owned w"
  "timers_owned (w\<lparr>Characteristic_On := g\<rparr>) = timers_owned w"
  "timers_owned (w\<lparr>lastStatus := h\<rparr>) = timers_owned w"
  "timers_owned (w\<lparr>Characteristic_Name := i\<rparr>) = timers_owned w"
  "timers_owned (w\<lparr>Characteristic_Manufacturer := j\<rparr>) = timers_owned w"
  "timers_owned (w\<lparr>Characteristic_Model := k\<rparr>) = timers_owned w"
  "timers_owned (w\<lparr>Characteristic_SerialNumber := l\<rparr>) = timers_owned w"
  "timers_owned (w\<lparr>Characteristic_FirmwareRevision := m\<rparr>) = timers_owned w"
  by (simp_all add: timers_owned_def)

lemma owned_connectWebSocket: "timers_owned w \<Longrightarrow> timers_owned (connectWebSocket w)"
  by (cases "ws w") (simp_all add: connectWebSocket_eq Let_def owned_handleDisconnection)

lemma owned_on_open: "timers_owned w \<Longrightarrow> timers_owned (on_open w)"
  by (simp add: timers_owned_def on_open_eq owned_add_c owned_cancel_c owned_add_s
      owned_cancel_s owned_cancel_r)

lemma owned_on_message: "timers_owned w \<Longrightarrow> timers_owned (on_message parsed w)"
  by (simp add: on_message_eq owned_scheduleConnectionTimeout
      split: option.splits sum.splits bool.splits)

lemma owned_sendMessage [simp]: "timers_owned (sendMessage m w) = timers_owned w"
  by (simp add: sendMessage_eq)

lemma owned_sendState [simp]: "timers_owned (sendState w) = timers_owned w"
  by (simp add: sendState_eq)

lemma owned_set_requests:
  "timers_owned w \<Longrightarrow> timers_owned (setOn v w)"
  "timers_owned w \<Longrightarrow> timers_owned (setBrightness b w)"
  "timers_owned w \<Longrightarrow> timers_owned (setColorTemperature c w)"
  by (simp_all add: setOn_def setBrightness_def setColorTemperature_def saveState_def Let_def)

lemma owned_destroy: "timers_owned w \<Longrightarrow> timers_owned (destroy w)"
  by (cases "ws w") (simp_all add: destroy_eq timers_owned_def ws_close_def owned_cancel)

lemma owned_clearTimer: "timers_owned w \<Longrightarrow> timers_owned (clearTimer h w)"
  using owned_cancel[of "timers w" _ _ _ _ "Some h"]
  by (simp add: timers_owned_def clearTimer_def)

lemma owned_on_connection_timeout:
  "timers_owned w \<Longrightarrow> timers_owned (on_connection_timeout w)"
  by (cases "ws w") (simp_all add: on_connection_timeout_def owned_handleDisconnection)

lemma owned_fire_timer: "timers_owned w \<Longrightarrow> timers_owned (fire_timer h w)"
  by (simp add: fire_timer_def Let_def checkStatus_def owned_clearTimer
      owned_connectWebSocket owned_on_connection_timeout
      split: option.splits timer_cb.splits)

lemma owned_step: "timers_owned w \<Longrightarrow> timers_owned (step e w)"
  by (cases e)
     (simp_all add: owned_connectWebSocket owned_on_open owned_on_message on_close_def
        on_error_def owned_handleDisconnection set_readyState_def owned_fire_timer
        owned_set_requests owned_destroy)

lemma owned_run: "timers_owned w \<Longrightarrow> timers_owned (run evs w)"
  by (induction evs arbitrary: w) (simp_all add: owned_step)

lemma owned_initial: "timers_owned (field_initialisers env)"
  by (simp add: timers_owned_def field_initialisers_def owned_def)

lemma owned_at_most_one:
  assumes "owned ts n r s c"
  shows "length (filter (\<lambda>t. callback t = cb) ts) \<le> 1"
proof -
  define ow where "ow = (case cb of ReconnectCb \<Rightarrow> r | StatusCheckCb \<Rightarrow> s | ConnectionTimeoutCb \<Rightarrow> c)"
  have h: "\<forall>t \<in> set ts. callback t = cb \<longrightarrow> ow = Some (handle t)"
    using assms by (auto simp: owned_def ow_def)
  have d: "distinct (map handle ts)" using assms by (simp add: owned_def)
  show ?thesis using h d
  proof (induction ts)
    case Nil
    then show ?case by simp
  next
    case (Cons t ts)
    show ?case
    proof (cases "callback t = cb")
      case True
      then have "ow = Some (handle t)" using Cons.prems by simp
      then have "\<forall>u \<in> set ts. callback u \<noteq> cb" using Cons.prems by force
      then have "filter (\<lambda>t. callback t = cb) ts = []" by (simp add: filter_empty_conv)
      with True show ?thesis by simp
    next
      case False
      then show ?thesis using Cons by simp
    qed
  qed
qed

section \<open>The worked examples, evaluated\<close>

lemma connecting_example_eq:
  "connecting_example r =
     (field_initialisers (example_env r))\<lparr>ws := Some 0, sockets := [CONNECTING]\<rparr>"
  by (simp add: connecting_example_def connectWebSocket_eq field_initialisers_def example_env_def)

lemma connecting_example_fields:
  "ws (connecting_example r) = Some 0"
  "sockets (connecting_example r) = [CONNECTING]"
  "sent (connecting_example r) = []"
  "timers (connecting_example r) = []"
  "next_handle (connecting_example r) = 0"
  "isOnline (connecting_example r) = False"
  "restoreState (connecting_example r) = r"
  "reconnectInterval (connecting_example r) = None"
  "statusCheckInterval (connecting_example r) = None"
  "connectionTimeout (connecting_example r) = None"
  "states (connecting_example r) = \<lparr>On = False, Brightness = 100, ColorTemperature = 300\<rparr>"
  "Characteristic_On (connecting_example r) = OnValue False"
  by (simp_all add: connecting_example_eq field_initialisers_def example_env_def)

lemma online_example_fields:
  "ws (online_example r) = Some 0"
  "sockets (online_example r) = [OPEN]"
  "isOnline (online_example r) = True"
  "timers (online_example r) =
     [\<lparr>handle = 0, callback = StatusCheckCb, delay = 20000, repeats = True\<rparr>,
      \<lparr>handle = 1, callback = ConnectionTimeoutCb, delay = 30000, repeats = False\<rparr>]"
  "next_handle (online_example r) = 2"
  "reconnectInterval (online_example r) = None"
  "statusCheckInterval (online_example r) = Some 0"
  "connectionTimeout (online_example r) = Some 1"
  "states (online_example r) = \<lparr>On = False, Brightness = 100, ColorTemperature = 300\<rparr>"
  by (simp_all add: online_example_def on_open_eq set_readyState_def connecting_example_fields
      STATUS_CHECK_INTERVAL_def CONNECTION_TIMEOUT_def)

lemma disconnected_example_run:
  "run [ConnectAttempt, WsClose 0] (field_initialisers (example_env r)) = disconnected_example r"
  by (simp add: disconnected_example_def connecting_example_def)

lemma disconnected_example_fields:
  "timers (disconnected_example r)
     = [\<lparr>handle = 0, callback = ReconnectCb, delay = 15000, repeats = True\<rparr>]"
  "reconnectInterval (disconnected_example r) = Some 0"
  "isOnline (disconnected_example r) = False"
  "sockets (disconnected_example r) = [CLOSED]"
  by (simp_all add: disconnected_example_def on_close_def handleDisconnection_eq
      scheduleReconnect_eq set_readyState_def connecting_example_fields RECONNECT_INTERVAL_def)

lemma disconnected_holding_eval:
  "ws (disconnected_holding r) = Some 0"
  "sockets (disconnected_holding r) = [CONNECTING]"
  "sent (disconnected_holding r) = []"
  "restoreState (disconnected_holding r) = r"
  "states (disconnected_holding r) = \<lparr>On = True, Brightness = 50, ColorTemperature = 300\<rparr>"
  by (simp_all add: disconnected_holding_def field_initialisers_def example_env_def
      connectWebSocket_eq setOn_def setBrightness_def setColorTemperature_def saveState_def Let_def)




section \<open>Frames on the wire\<close>

lemma sent_grows_step: "\<exists>later. sent (step e w) = sent w @ later"
proof (cases e)
  case ConnectAttempt
  then show ?thesis
    by (cases "ws w")
       (simp_all add: connectWebSocket_eq handleDisconnection_eq scheduleReconnect_eq
          ws_close_def Let_def)
next
  case (WsOpen sid)
  then show ?thesis by (simp add: on_open_eq set_readyState_def)
next
  case (WsMessage sid parsed)
  then show ?thesis
    by (simp add: on_message_eq scheduleConnectionTimeout_eq
        split: option.splits sum.splits bool.splits)
next
  case (WsClose sid)
  then show ?thesis
    by (simp add: on_close_def handleDisconnection_eq scheduleReconnect_eq set_readyState_def)
next
  case (WsError sid)
  then show ?thesis
    by (simp add: on_error_def handleDisconnection_eq scheduleReconnect_eq)
next
  case (TimerFires h)
  show ?thesis
  proof (cases "find (\<lambda>t. handle t = h) (timers w)")
    case None
    with TimerFires show ?thesis by (simp add: fire_timer_def)
  next
    case (Some t)
    have cb: "\<exists>later. sent (case callback t of
                ReconnectCb \<Rightarrow> connectWebSocket w1
              | StatusCheckCb \<Rightarrow> checkStatus w1
              | ConnectionTimeoutCb \<Rightarrow> on_connection_timeout w1) = sent w1 @ later" for w1
      by (cases "callback t"; cases "ws w1")
         (simp_all add: connectWebSocket_eq handleDisconnection_eq scheduleReconnect_eq
            ws_close_def ws_terminate_def Let_def checkStatus_def sendMessage_eq
            on_connection_timeout_def)
    have s1: "sent (clearTimer h w) = sent w" by (simp add: clearTimer_def)
    show ?thesis
    proof (cases "repeats t")
      case True
      with TimerFires Some cb[of w] show ?thesis by (simp add: fire_timer_def)
    next
      case False
      with TimerFires Some cb[of "clearTimer h w"] s1 show ?thesis
        by (simp add: fire_timer_def Let_def)
    qed
  qed
next
  case (HubSetOn v)
  then show ?thesis by (simp add: setOn_def sendState_eq saveState_def Let_def)
next
  case (HubSetBrightness v)
  then show ?thesis by (simp add: setBrightness_def sendState_eq saveState_def Let_def)
next
  case (HubSetColorTemperature v)
  then show ?thesis by (simp add: setColorTemperature_def sendState_eq saveState_def Let_def)
next
  case Destroy
  then show ?thesis by (cases "ws w") (simp_all add: destroy_eq ws_close_def)
qed

lemma sent_grows_run: "\<exists>later. sent (run evs w) = sent w @ later"
proof (induction evs arbitrary: w)
  case Nil
  then show ?case by simp
next
  case (Cons e es)
  obtain a where a: "sent (step e w) = sent w @ a" using sent_grows_step by blast
  obtain b where b: "sent (run es (step e w)) = sent (step e w) @ b" using Cons.IH by blast
  show ?case using a b by simp
qed

lemma open_current_socket:
  assumes "ws w = Some sid" and "sid < length (sockets w)"
  shows "sent (step (WsOpen sid) w)
           = sent w @ (if restoreState w then [(sid, calculateHexValue (states w))] else [])"
    and "isOnline (step (WsOpen sid) w)"
    and "states (step (WsOpen sid) w) = states w"
    and "link_online (step (WsOpen sid) w)"
  using assms
  by (simp_all add: on_open_eq scheduleConnectionTimeout_eq set_readyState_def frames_def
      readyState_of_def link_online_def)

lemma frames_online:
  "link_online w \<Longrightarrow> map snd (frames w m) = [m]"
  by (auto simp: link_online_def frames_def split: option.splits)

lemma frames_offline:
  "isOnline w \<Longrightarrow> \<not> link_online w \<Longrightarrow> frames w m = []"
  by (auto simp: link_online_def frames_def split: option.splits)

lemma frames_upd_states [simp]:
  "frames (w\<lparr>states := a, context_state := b\<rparr>) m = frames w m"
  by (cases "ws w") (simp_all add: frames_def readyState_of_def)

lemma link_online_upd [simp]:
  "link_online (w\<lparr>states := a\<rparr>) = link_online w"
  "link_online (w\<lparr>context_state := b\<rparr>) = link_online w"
  "link_online (w\<lparr>Characteristic_On := c\<rparr>) = link_online w"
  by (cases "ws w"; simp add: link_online_def readyState_of_def)+

lemma not_online_connecting: "\<not> link_online (connecting_example r)"
  by (simp add: link_online_def connecting_example_fields)

lemma online_example_online: "link_online (online_example r)"
  by (simp add: link_online_def online_example_fields readyState_of_def)

text \<open>
  Claim C1. The transition to Online is the open event of the socket the object holds.
  With \<open>restoreState\<close> set, the handler of that event transmits exactly one frame, the
  encoding of the desired state held at that moment, and none without it. The frame is
  on the wire before the handler returns, so whatever later events transmit, set
  requests of the hub among them, comes after it.
\<close>

theorem restore_on_open:
  assumes "ws w = Some sid" and "sid < length (sockets w)"
  shows "sent (step (WsOpen sid) w)
           = sent w @ (if restoreState w then [(sid, calculateHexValue (states w))] else [])
       \<and> link_online (step (WsOpen sid) w)
       \<and> states (step (WsOpen sid) w) = states w
       \<and> (\<forall>evs. \<exists>later. sent (run evs (step (WsOpen sid) w))
              = sent w @ (if restoreState w then [(sid, calculateHexValue (states w))] else [])
                @ later)"
proof -
  note o = open_current_socket[OF assms]
  have l: "\<exists>later. sent (run evs (step (WsOpen sid) w))
              = sent w @ (if restoreState w then [(sid, calculateHexValue (states w))] else [])
                @ later" for evs
    using sent_grows_run[of evs "step (WsOpen sid) w"] o(1) by auto
  show ?thesis using o l by blast
qed

theorem restore_on_open_witness:
  "sent (step (WsOpen 0) (disconnected_holding True)) = [(0, ''#0b2600'')]
   \<and> sent (step (WsOpen 0) (disconnected_holding False)) = []"
  using restore_on_open[of "disconnected_holding True" 0]
        restore_on_open[of "disconnected_holding False" 0]
  by (simp add: disconnected_holding_eval frame_example)

section \<open>Set requests\<close>

lemma setOn_eq:
  "setOn v w =
     w\<lparr>states := (states w)\<lparr>On := v\<rparr>, context_state := Some ((states w)\<lparr>On := v\<rparr>),
       sent := sent w @ (if isOnline w then frames w (calculateHexValue ((states w)\<lparr>On := v\<rparr>)) else []),
       Characteristic_On := (if isOnline w then OnValue v else Characteristic_On w)\<rparr>"
  by (simp add: setOn_def saveState_def sendState_eq Let_def)

lemma setBrightness_eq:
  "setBrightness v w =
     w\<lparr>states := (states w)\<lparr>Brightness := v\<rparr>,
       context_state := Some ((states w)\<lparr>Brightness := v\<rparr>),
       sent := sent w @ (if isOnline w
                         then frames w (calculateHexValue ((states w)\<lparr>Brightness := v\<rparr>)) else [])\<rparr>"
  by (simp add: setBrightness_def saveState_def sendState_eq Let_def)

lemma setColorTemperature_eq:
  "setColorTemperature v w =
     w\<lparr>states := (states w)\<lparr>ColorTemperature := v\<rparr>,
       context_state := Some ((states w)\<lparr>ColorTemperature := v\<rparr>),
       sent := sent w @ (if isOnline w
                         then frames w (calculateHexValue ((states w)\<lparr>ColorTemperature := v\<rparr>))
                         else [])\<rparr>"
  by (simp add: setColorTemperature_def saveState_def sendState_eq Let_def)

lemma set_request_transmits:
  "map snd (sent (setOn v w)) = map snd (sent w)
      @ (if link_online w then [calculateHexValue ((states w)\<lparr>On := v\<rparr>)] else [])"
  "map snd (sent (setBrightness b w)) = map snd (sent w)
      @ (if link_online w then [calculateHexValue ((states w)\<lparr>Brightness := b\<rparr>)] else [])"
  "map snd (sent (setColorTemperature c w)) = map snd (sent w)
      @ (if link_online w then [calculateHexValue ((states w)\<lparr>ColorTemperature := c\<rparr>)] else [])"
  by (cases "isOnline w"; cases "link_online w";
      simp add: setOn_eq setBrightness_eq setColorTemperature_eq frames_online frames_offline;
      simp add: link_online_def)+

lemma set_request_not_online:
  assumes "\<not> link_online w"
  shows "setOn v w =
           w\<lparr>states := (states w)\<lparr>On := v\<rparr>, context_state := Some ((states w)\<lparr>On := v\<rparr>),
             Characteristic_On := (if isOnline w then OnValue v else Characteristic_On w)\<rparr>"
    and "setBrightness b w =
           w\<lparr>states := (states w)\<lparr>Brightness := b\<rparr>,
             context_state := Some ((states w)\<lparr>Brightness := b\<rparr>)\<rparr>"
    and "setColorTemperature c w =
           w\<lparr>states := (states w)\<lparr>ColorTemperature := c\<rparr>,
             context_state := Some ((states w)\<lparr>ColorTemperature := c\<rparr>)\<rparr>"
  using assms
  by (cases "isOnline w";
      simp add: setOn_eq setBrightness_eq setColorTemperature_eq frames_offline)+

lemma set_requests_offline_step:
  assumes "\<not> link_online w" and "is_set_request e"
  shows "\<not> link_online (step e w) \<and> sent (step e w) = sent w \<and> ws (step e w) = ws w
         \<and> sockets (step e w) = sockets w \<and> restoreState (step e w) = restoreState w"
  using assms
  by (cases e) (simp_all add: set_request_not_online)

lemma set_requests_offline_run:
  assumes "\<not> link_online w" and "\<forall>e \<in> set reqs. is_set_request e"
  shows "\<not> link_online (run reqs w) \<and> sent (run reqs w) = sent w \<and> ws (run reqs w) = ws w
         \<and> sockets (run reqs w) = sockets w \<and> restoreState (run reqs w) = restoreState w"
  using assms
proof (induction reqs arbitrary: w)
  case Nil
  then show ?case by simp
next
  case (Cons e es)
  then have e: "is_set_request e" and es: "\<forall>e \<in> set es. is_set_request e" by simp_all
  note s = set_requests_offline_step[OF Cons.prems(1) e]
  from s have "\<not> link_online (step e w)" by simp
  from Cons.IH[OF this es] s show ?case by simp
qed

text \<open>
  Claim C2. Each of \<open>setOn\<close>, \<open>setBrightness\<close> and \<open>setColorTemperature\<close> stores
  the value in its field of the desired state and persists the state, whatever the link
  does. It transmits a frame, the encoding of the new state, exactly when the link is
  online. When the link is not online the object changes in nothing but the state and
  its persisted copy (and, for \<open>setOn\<close>, the characteristic shown): there is no queue.
  After any number of such requests nothing has been transmitted, and the next open
  event pushes one frame for the state then current if \<open>restoreState\<close> is set, and
  nothing otherwise.
\<close>

theorem set_requests:
  "states (setOn v w) = (states w)\<lparr>On := v\<rparr>
   \<and> context_state (setOn v w) = Some ((states w)\<lparr>On := v\<rparr>)
   \<and> map snd (sent (setOn v w)) = map snd (sent w)
        @ (if link_online w then [calculateHexValue ((states w)\<lparr>On := v\<rparr>)] else [])
   \<and> states (setBrightness b w) = (states w)\<lparr>Brightness := b\<rparr>
   \<and> context_state (setBrightness b w) = Some ((states w)\<lparr>Brightness := b\<rparr>)
   \<and> map snd (sent (setBrightness b w)) = map snd (sent w)
        @ (if link_online w then [calculateHexValue ((states w)\<lparr>Brightness := b\<rparr>)] else [])
   \<and> states (setColorTemperature c w) = (states w)\<lparr>ColorTemperature := c\<rparr>
   \<and> context_state (setColorTemperature c w) = Some ((states w)\<lparr>ColorTemperature := c\<rparr>)
   \<and> map snd (sent (setColorTemperature c w)) = map snd (sent w)
        @ (if link_online w then [calculateHexValue ((states w)\<lparr>ColorTemperature := c\<rparr>)]
           else [])
   \<and> (\<not> link_online w \<longrightarrow>
        setOn v w =
          w\<lparr>states := (states w)\<lparr>On := v\<rparr>, context_state := Some ((states w)\<lparr>On := v\<rparr>),
            Characteristic_On := (if isOnline w then OnValue v else Characteristic_On w)\<rparr>
        \<and> setBrightness b w =
          w\<lparr>states := (states w)\<lparr>Brightness := b\<rparr>,
            context_state := Some ((states w)\<lparr>Brightness := b\<rparr>)\<rparr>
        \<and> setColorTemperature c w =
          w\<lparr>states := (states w)\<lparr>ColorTemperature := c\<rparr>,
            context_state := Some ((states w)\<lparr>ColorTemperature := c\<rparr>)\<rparr>)
   \<and> (\<forall>reqs sid. \<not> link_online w \<and> (\<forall>e \<in> set reqs. is_set_request e)
          \<and> ws w = Some sid \<and> sid < length (sockets w) \<longrightarrow>
        sent (run reqs w) = sent w
        \<and> sent (step (WsOpen sid) (run reqs w))
            = sent w @ (if restoreState w
                        then [(sid, calculateHexValue (states (run reqs w)))] else []))"
proof -
  have fields:
    "states (setOn v w) = (states w)\<lparr>On := v\<rparr>"
    "context_state (setOn v w) = Some ((states w)\<lparr>On := v\<rparr>)"
    "states (setBrightness b w) = (states w)\<lparr>Brightness := b\<rparr>"
    "context_state (setBrightness b w) = Some ((states w)\<lparr>Brightness := b\<rparr>)"
    "states (setColorTemperature c w) = (states w)\<lparr>ColorTemperature := c\<rparr>"
    "context_state (setColorTemperature c w) = Some ((states w)\<lparr>ColorTemperature := c\<rparr>)"
    by (simp_all add: setOn_eq setBrightness_eq setColorTemperature_eq)
  have replay: "sent (run reqs w) = sent w
        \<and> sent (step (WsOpen sid) (run reqs w))
            = sent w @ (if restoreState w
                        then [(sid, calculateHexValue (states (run reqs w)))] else [])"
    if "\<not> link_online w" "\<forall>e \<in> set reqs. is_set_request e"
       "ws w = Some sid" "sid < length (sockets w)" for reqs sid
  proof -
    note r = set_requests_offline_run[OF that(1,2)]
    have "ws (run reqs w) = Some sid" "sid < length (sockets (run reqs w))"
      using r that by simp_all
    from open_current_socket(1)[OF this] r show ?thesis by simp
  qed
  show ?thesis
    using fields set_request_transmits set_request_not_online replay
    by blast
qed

theorem set_requests_witness:
  "\<not> link_online (connecting_example True)
   \<and> sent (run [HubSetOn True, HubSetBrightness 50] (connecting_example True)) = []
   \<and> sent (step (WsOpen 0) (run [HubSetOn True, HubSetBrightness 50] (connecting_example True)))
       = [(0, calculateHexValue
                (states (run [HubSetOn True, HubSetBrightness 50] (connecting_example True))))]
   \<and> link_online (online_example False)
   \<and> map snd (sent (setBrightness 50 (online_example False)))
       = map snd (sent (online_example False))
         @ [calculateHexValue ((states (online_example False))\<lparr>Brightness := 50\<rparr>)]"
proof -
  have off: "\<not> link_online (connecting_example True)" by (rule not_online_connecting)
  have on: "link_online (online_example False)" by (rule online_example_online)
  have reqs: "\<forall>e \<in> set [HubSetOn True, HubSetBrightness 50]. is_set_request e" by simp
  have sock: "ws (connecting_example True) = Some 0"
    "0 < length (sockets (connecting_example True))"
    "sent (connecting_example True) = []" "restoreState (connecting_example True)"
    by (simp_all add: connecting_example_fields)
  have r: "\<forall>reqs sid. \<not> link_online (connecting_example True)
          \<and> (\<forall>e \<in> set reqs. is_set_request e)
          \<and> ws (connecting_example True) = Some sid
          \<and> sid < length (sockets (connecting_example True)) \<longrightarrow>
        sent (run reqs (connecting_example True)) = sent (connecting_example True)
        \<and> sent (step (WsOpen sid) (run reqs (connecting_example True)))
            = sent (connecting_example True)
              @ (if restoreState (connecting_example True)
                 then [(sid, calculateHexValue (states (run reqs (connecting_example True))))]
                 else [])"
    using set_requests[of True "connecting_example True" 50 300] by blast
  have a: "sent (run [HubSetOn True, HubSetBrightness 50] (connecting_example True)) = []
    \<and> sent (step (WsOpen 0) (run [HubSetOn True, HubSetBrightness 50] (connecting_example True)))
       = [(0, calculateHexValue
                (states (run [HubSetOn True, HubSetBrightness 50] (connecting_example True))))]"
    using r[rule_format, of "[HubSetOn True, HubSetBrightness 50]" 0] off reqs sock
    by simp
  from set_requests[of True "online_example False" 50 300] on
  have b: "map snd (sent (setBrightness 50 (online_example False)))
       = map snd (sent (online_example False))
         @ [calculateHexValue ((states (online_example False))\<lparr>Brightness := 50\<rparr>)]"
    by simp
  show ?thesis using off on a b by blast
qed

section \<open>Inbound frames\<close>




lemma on_message_unparseable: "on_message None w = w"
  by (simp add: on_message_eq)

lemma on_message_primitive:
  "on_message (Some JNull) w = w" "on_message (Some (JBool b)) w = w"
  "on_message (Some (JNumber n)) w = w" "on_message (Some (JString s)) w = w"
  by (simp_all add: on_message_eq is_status_response_def)

lemma on_message_other_object:
  assumes "is_status_response response = Inr False"
  shows "on_message (Some response) w = scheduleConnectionTimeout w"
  using assms by (simp add: on_message_eq)

text \<open>
  Claim C3 asks that every frame received while online, parseable or not, re-arms the
  activity timeout. The call of \<open>scheduleConnectionTimeout\<close> stands inside the
  \<open>try\<close> block, after \<open>JSON.parse\<close>: on the online example a frame that does not
  parse leaves the object, and with it the timeout armed at the open event (handle 1),
  exactly as it was, while the frame \<open>{}\<close> replaces that timeout by a new one
  (handle 2).
\<close>

theorem unparseable_frame_keeps_old_timeout:
  "link_online (online_example False)
   \<and> pending ConnectionTimeoutCb (online_example False)
       = [\<lparr>handle = 1, callback = ConnectionTimeoutCb, delay = 30000, repeats = False\<rparr>]
   \<and> step (WsMessage 0 None) (online_example False) = online_example False
   \<and> pending ConnectionTimeoutCb (step (WsMessage 0 None) (online_example False))
       = [\<lparr>handle = 1, callback = ConnectionTimeoutCb, delay = 30000, repeats = False\<rparr>]
   \<and> pending ConnectionTimeoutCb (step (WsMessage 0 (Some (JObject []))) (online_example False))
       = [\<lparr>handle = 2, callback = ConnectionTimeoutCb, delay = 30000, repeats = False\<rparr>]"
  by (simp add: online_example_online on_message_unparseable pending_def online_example_fields
      on_message_eq is_status_response_def scheduleConnectionTimeout_eq CONNECTION_TIMEOUT_def)

section \<open>Teardown\<close>

lemma destroy_never_connected:
  "destroy (field_initialisers env) = field_initialisers env"
  by (simp add: destroy_eq field_initialisers_def)

text \<open>
  Claim C4 asks that no timer of the object is pending once \<open>destroy\<close> has returned.
  \<open>destroy\<close> clears the reconnect timer and the status poll and never touches
  \<open>connectionTimeout\<close>: on the online example the activity timeout (handle 1) is
  still pending afterwards, and when it fires it arms a new reconnect timer.
\<close>

theorem destroy_leaves_activity_timeout:
  "timers (destroy (online_example False))
     = [\<lparr>handle = 1, callback = ConnectionTimeoutCb, delay = 30000, repeats = False\<rparr>]
   \<and> pending ReconnectCb (step (TimerFires 1) (destroy (online_example False)))
     = [\<lparr>handle = 2, callback = ReconnectCb, delay = 15000, repeats = True\<rparr>]"
proof -
  have t: "timers (destroy (online_example False))
     = [\<lparr>handle = 1, callback = ConnectionTimeoutCb, delay = 30000, repeats = False\<rparr>]"
    by (simp add: destroy_eq online_example_fields ws_close_def)
  have f: "reconnectInterval (destroy (online_example False)) = None"
    "statusCheckInterval (destroy (online_example False)) = Some 0"
    "next_handle (destroy (online_example False)) = 2"
    "ws (destroy (online_example False)) = Some 0"
    by (simp_all add: destroy_eq online_example_fields ws_close_def readyState_of_def)
  have "pending ReconnectCb (step (TimerFires 1) (destroy (online_example False)))
     = [\<lparr>handle = 2, callback = ReconnectCb, delay = 15000, repeats = True\<rparr>]"
    by (simp add: fire_timer_def t f pending_def clearTimer_def on_connection_timeout_def
        handleDisconnection_eq scheduleReconnect_eq ws_terminate_def Let_def
        RECONNECT_INTERVAL_def)
  with t show ?thesis by simp
qed

section \<open>Timers\<close>

lemma pending_at_most_one: "timers_owned w \<Longrightarrow> length (pending cb w) \<le> 1"
  unfolding timers_owned_def pending_def by (rule owned_at_most_one)

lemma destroy_clears_two_timers:
  assumes "timers_owned w"
  shows "pending ReconnectCb (destroy w) = []" and "pending StatusCheckCb (destroy w) = []"
  using assms
  by (cases "ws w"; cases "reconnectInterval w"; cases "statusCheckInterval w";
      auto simp: destroy_eq pending_def timers_owned_def owned_def ws_close_def
        filter_empty_conv split: timer_cb.splits)+

lemma pending_reconnect_suppressed:
  assumes "timers_owned w" and "pending ReconnectCb w \<noteq> []"
  shows "scheduleReconnect w = w"
proof -
  obtain t where "t \<in> set (timers w)" "callback t = ReconnectCb"
    using assms(2) by (auto simp: pending_def filter_empty_conv)
  then have "reconnectInterval w = Some (handle t)"
    using assms(1) by (auto simp: timers_owned_def owned_def)
  then show ?thesis by (simp add: scheduleReconnect_eq)
qed

lemma singleton_list: "length xs \<le> 1 \<Longrightarrow> x \<in> set xs \<Longrightarrow> xs = [x]"
  by (cases xs) auto

lemma rearm_timeout_cancels_prior:
  assumes "timers_owned w"
  shows "pending ConnectionTimeoutCb (scheduleConnectionTimeout w)
           = [\<lparr>handle = next_handle w, callback = ConnectionTimeoutCb,
                delay = CONNECTION_TIMEOUT, repeats = False\<rparr>]"
proof (rule singleton_list)
  show "length (pending ConnectionTimeoutCb (scheduleConnectionTimeout w)) \<le> 1"
    using assms by (intro pending_at_most_one owned_scheduleConnectionTimeout)
  show "\<lparr>handle = next_handle w, callback = ConnectionTimeoutCb,
          delay = CONNECTION_TIMEOUT, repeats = False\<rparr>
        \<in> set (pending ConnectionTimeoutCb (scheduleConnectionTimeout w))"
    by (simp add: scheduleConnectionTimeout_eq pending_def)
qed

lemma rearm_status_cancels_prior:
  assumes "timers_owned w"
  shows "pending StatusCheckCb (on_open w)
           = [\<lparr>handle = next_handle w, callback = StatusCheckCb,
                delay = STATUS_CHECK_INTERVAL, repeats = True\<rparr>]"
proof (rule singleton_list)
  show "length (pending StatusCheckCb (on_open w)) \<le> 1"
    using assms by (intro pending_at_most_one owned_on_open)
  have "connectionTimeout w \<noteq> Some (next_handle w)"
    using assms by (auto simp: timers_owned_def owned_def)
  then show "\<lparr>handle = next_handle w, callback = StatusCheckCb,
          delay = STATUS_CHECK_INTERVAL, repeats = True\<rparr>
        \<in> set (pending StatusCheckCb (on_open w))"
    by (simp add: on_open_eq pending_def set_cancel)
qed

lemma prior_handle_gone:
  assumes "timers_owned w"
  shows "connectionTimeout w = Some h \<Longrightarrow>
           h \<notin> handle ` set (timers (scheduleConnectionTimeout w))"
    and "statusCheckInterval w = Some h \<Longrightarrow> h \<notin> handle ` set (timers (on_open w))"
  using assms
  by (auto simp: scheduleConnectionTimeout_eq on_open_eq set_cancel timers_owned_def owned_def)

text \<open>
  Claim C8. In every state one object reaches from its field initialisers, by any
  sequence of connect attempts, socket events, firing timers, set requests and
  \<open>destroy\<close>, at most one reconnect timer, at most one status poll and at most one
  activity timeout are pending. A reconnect request while a reconnect timer is pending
  changes nothing. Re-arming the status poll (at an open event) or the activity timeout
  removes the instance the field held and leaves exactly one pending.
\<close>

theorem one_timer_of_each_kind:
  "length (pending ReconnectCb (run evs (field_initialisers env))) \<le> 1
   \<and> length (pending StatusCheckCb (run evs (field_initialisers env))) \<le> 1
   \<and> length (pending ConnectionTimeoutCb (run evs (field_initialisers env))) \<le> 1
   \<and> (pending ReconnectCb (run evs (field_initialisers env)) \<noteq> [] \<longrightarrow>
        scheduleReconnect (run evs (field_initialisers env)) = run evs (field_initialisers env))
   \<and> (\<forall>h. statusCheckInterval (run evs (field_initialisers env)) = Some h \<longrightarrow>
          h \<notin> handle ` set (timers (on_open (run evs (field_initialisers env)))))
   \<and> length (pending StatusCheckCb (on_open (run evs (field_initialisers env)))) = 1
   \<and> (\<forall>h. connectionTimeout (run evs (field_initialisers env)) = Some h \<longrightarrow>
          h \<notin> handle ` set (timers (scheduleConnectionTimeout (run evs (field_initialisers env)))))
   \<and> length (pending ConnectionTimeoutCb
                (scheduleConnectionTimeout (run evs (field_initialisers env)))) = 1"
proof -
  have inv: "timers_owned (run evs (field_initialisers env))"
    by (intro owned_run owned_initial)
  show ?thesis
    using pending_at_most_one[OF inv] pending_reconnect_suppressed[OF inv]
      prior_handle_gone[OF inv] rearm_status_cancels_prior[OF inv]
      rearm_timeout_cancels_prior[OF inv]
    by simp
qed

theorem one_timer_of_each_kind_witness:
  "pending ReconnectCb (run [ConnectAttempt, WsClose 0] (field_initialisers (example_env True)))
     \<noteq> []
   \<and> length (pending ReconnectCb
               (run [ConnectAttempt, WsClose 0] (field_initialisers (example_env True)))) \<le> 1
   \<and> scheduleReconnect (run [ConnectAttempt, WsClose 0] (field_initialisers (example_env True)))
       = run [ConnectAttempt, WsClose 0] (field_initialisers (example_env True))"
proof -
  have p: "pending ReconnectCb
             (run [ConnectAttempt, WsClose 0] (field_initialisers (example_env True))) \<noteq> []"
    unfolding disconnected_example_run by (simp add: pending_def disconnected_example_fields)
  show ?thesis
    using p one_timer_of_each_kind[of "[ConnectAttempt, WsClose 0]" "example_env True"]
    by blast
qed

section \<open>Construction and discovery\<close>

lemma getOn_not_a_member: "bind_method ''getOn'' = Inl TypeError"
  by (simp add: bind_method_def class_members_def)

lemma setOn_is_a_member: "bind_method ''setOn'' = Inr ''setOn''"
  by (simp add: bind_method_def class_members_def)

lemma constructor_restoreState:
  "context_device accessory = Some device \<Longrightarrow>
   restoreState (fst (new_CCTDownlighter accessory env)) = restore_state_or_false device"
  by (simp add: new_CCTDownlighter_def getOn_not_a_member setOn_is_a_member
      field_initialisers_def loadCachedState_def Let_def split: option.splits)

text \<open>
  Claim C9. In the reference iteration the constructor throws a TypeError for every
  accessory and every environment: it binds \<open>this.getOn\<close>, which the class does not
  declare. The object it leaves behind has no socket and has sent nothing: no
  connection was attempted.
\<close>

theorem constructor_always_throws:
  "snd (new_CCTDownlighter accessory env) = Some TypeError
   \<and> sockets (fst (new_CCTDownlighter accessory env)) = []
   \<and> ws (fst (new_CCTDownlighter accessory env)) = None
   \<and> sent (fst (new_CCTDownlighter accessory env)) = []"
  by (simp add: new_CCTDownlighter_def getOn_not_a_member setOn_is_a_member
      field_initialisers_def loadCachedState_def Let_def split: option.splits)

theorem constructor_always_throws_witness:
  "snd (new_CCTDownlighter
          \<lparr>displayName = ''Lamp'', UUID = ''uuid-192.168.1.100'',
           context_device = Some \<lparr>ctx_name = ''Lamp'', ctx_type = ''cct_downlighter'',
                                  ctx_ip = ''192.168.1.100'', ctx_restore_state = Some True\<rparr>\<rparr>
          (example_env False)) = Some TypeError"
  using constructor_always_throws
    [of "\<lparr>displayName = ''Lamp'', UUID = ''uuid-192.168.1.100'',
           context_device = Some \<lparr>ctx_name = ''Lamp'', ctx_type = ''cct_downlighter'',
                                  ctx_ip = ''192.168.1.100'', ctx_restore_state = Some True\<rparr>\<rparr>"
        "example_env False"]
  by (rule conjunct1)

lemma discoverDevice_new:
  "accessories (generate (cfg_ip device)) = None \<Longrightarrow>
   discoverDevice generate accessories device =
     \<lparr>displayName = cfg_name device, UUID = generate (cfg_ip device),
      context_device = Some \<lparr>ctx_name = cfg_name device, ctx_type = cfg_device_type device,
                             ctx_ip = cfg_ip device, ctx_restore_state = None\<rparr>\<rparr>"
  by (simp add: discoverDevice_def)

lemma discoverDevice_existing:
  "accessories (generate (cfg_ip device)) = Some existingAccessory \<Longrightarrow>
   context_device (discoverDevice generate accessories device) =
     Some \<lparr>ctx_name = cfg_name device, ctx_type = cfg_device_type device,
           ctx_ip = cfg_ip device, ctx_restore_state = cfg_restore_state device\<rparr>"
  by (simp add: discoverDevice_def)

lemma new_device_restoreState:
  assumes "accessories (generate (cfg_ip device)) = None"
  shows "restoreState (fst (new_CCTDownlighter (discoverDevice generate accessories device) env))
           = False"
  by (subst constructor_restoreState
        [where device = "\<lparr>ctx_name = cfg_name device, ctx_type = cfg_device_type device,
                          ctx_ip = cfg_ip device, ctx_restore_state = None\<rparr>"])
     (simp_all add: discoverDevice_new[of accessories generate device, OF assms]
        restore_state_or_false_def)

lemma first_start_no_device_restores:
  assumes "accessory \<in> set (discoverDevices generate Map.empty config_devices)"
  shows "restoreState (fst (new_CCTDownlighter accessory env)) = False"
proof -
  obtain device where "accessory = discoverDevice generate Map.empty device"
    using assms by (auto simp: discoverDevices_def split: option.splits)
  then show ?thesis using new_device_restoreState[of Map.empty generate device env] by simp
qed

text \<open>
  Claim C10. For a device with no cached accessory under its UUID, \<open>discoverDevices\<close>
  stores the name, the type and the address in \<open>context.device\<close> and no
  \<open>restore_state\<close>, so the handler created for it reads \<open>restoreState\<close> as false
  whatever the configuration says. Once the hub has started again with that accessory
  in its cache, the branch for existing accessories stores the configured value, and the
  handler reads it (false when the configuration leaves it out).
\<close>

theorem new_device_never_restores:
  assumes "accessories (generate (cfg_ip device)) = None"
  shows "context_device (discoverDevice generate accessories device) =
           Some \<lparr>ctx_name = cfg_name device, ctx_type = cfg_device_type device,
                 ctx_ip = cfg_ip device, ctx_restore_state = None\<rparr>
       \<and> restoreState (fst (new_CCTDownlighter (discoverDevice generate accessories device) env))
           = False
       \<and> context_device
            (discoverDevice generate
               (configureAccessory (discoverDevice generate accessories device) accessories)
               device) =
           Some \<lparr>ctx_name = cfg_name device, ctx_type = cfg_device_type device,
                 ctx_ip = cfg_ip device, ctx_restore_state = cfg_restore_state device\<rparr>
       \<and> restoreState
            (fst (new_CCTDownlighter
                    (discoverDevice generate
                       (configureAccessory (discoverDevice generate accessories device) accessories)
                       device) env))
           = (cfg_restore_state device = Some True)"
proof -
  let ?new = "discoverDevice generate accessories device"
  have n: "?new = \<lparr>displayName = cfg_name device, UUID = generate (cfg_ip device),
      context_device = Some \<lparr>ctx_name = cfg_name device, ctx_type = cfg_device_type device,
                             ctx_ip = cfg_ip device, ctx_restore_state = None\<rparr>\<rparr>"
    using assms by (rule discoverDevice_new)
  have r1: "restoreState (fst (new_CCTDownlighter ?new env)) = False"
    using assms by (rule new_device_restoreState)
  let ?accs = "configureAccessory ?new accessories"
  have look: "?accs (generate (cfg_ip device)) = Some ?new"
    by (simp add: configureAccessory_def n)
  have c2: "context_device (discoverDevice generate ?accs device) =
     Some \<lparr>ctx_name = cfg_name device, ctx_type = cfg_device_type device,
           ctx_ip = cfg_ip device, ctx_restore_state = cfg_restore_state device\<rparr>"
    using look by (rule discoverDevice_existing)
  have r2: "restoreState (fst (new_CCTDownlighter (discoverDevice generate ?accs device) env))
        = (cfg_restore_state device = Some True)"
    by (subst constructor_restoreState[OF c2])
       (auto simp: restore_state_or_false_def split: option.splits)
  show ?thesis using n r1 c2 r2 by simp
qed

theorem new_device_never_restores_witness:
  "restoreState (fst (new_CCTDownlighter
      (discoverDevice (\<lambda>ip. ''uuid-'' @ ip) Map.empty
         \<lparr>cfg_name = ''Lamp'', cfg_device_type = ''cct_downlighter'',
          cfg_ip = ''192.168.1.100'', cfg_restore_state = Some True\<rparr>)
      (example_env False))) = False
   \<and> restoreState (fst (new_CCTDownlighter
      (discoverDevice (\<lambda>ip. ''uuid-'' @ ip)
         (configureAccessory
            (discoverDevice (\<lambda>ip. ''uuid-'' @ ip) Map.empty
               \<lparr>cfg_name = ''Lamp'', cfg_device_type = ''cct_downlighter'',
                cfg_ip = ''192.168.1.100'', cfg_restore_state = Some True\<rparr>)
            Map.empty)
         \<lparr>cfg_name = ''Lamp'', cfg_device_type = ''cct_downlighter'',
          cfg_ip = ''192.168.1.100'', cfg_restore_state = Some True\<rparr>)
      (example_env False))) = True"
  using new_device_never_restores
    [of Map.empty "\<lambda>ip. ''uuid-'' @ ip"
        "\<lparr>cfg_name = ''Lamp'', cfg_device_type = ''cct_downlighter'',
          cfg_ip = ''192.168.1.100'', cfg_restore_state = Some True\<rparr>"
        "example_env False"]
  by simp

end
